theory Spec2Isabelle
  imports Complex_Main "HOL-Library.Word"
begin

section \<open>Streaming transcription session engine\<close>

text \<open>
  A shallow embedding of the per-connection session engine:
  \<^item> \<^verbatim>\<open>api/stt_streaming/src/client.py\<close> (class \<^verbatim>\<open>Client\<close>),
  \<^item> \<^verbatim>\<open>api/stt_streaming/src/buffering_strategy/buffering_strategies.py\<close>
    (class \<^verbatim>\<open>SilenceAtEndOfChunk\<close>),
  \<^item> \<^verbatim>\<open>api/stt_streaming/src/vad/simple_vad.py\<close> (class \<^verbatim>\<open>SimpleVAD\<close>),
  \<^item> \<^verbatim>\<open>api/streaming_asr.py\<close> (the websocket endpoint and its receive loop).

  Conventions. Python floats (seconds, clock readings) are exact rationals; Python ints
  are \<open>int\<close>; a \<^verbatim>\<open>bytearray\<close> is a list of bytes. Every exception of the source is a
  value of type \<open>error\<close>. The coroutine \<^verbatim>\<open>process_audio_async\<close> is cut at its
  \<^verbatim>\<open>await\<close>s: each piece between two suspension points is one atomic step of a task,
  and the steps of the receive loop and of the tasks interleave freely, as they do on the
  event loop.
\<close>

subsection \<open>Values\<close>

type_synonym byte = "8 word"

datatype error = ZeroDivisionError | TypeError | ValueError | Raised string

text \<open>One detected speech interval: the dict \<^verbatim>\<open>{"start", "end", "confidence"}\<close>.\<close>

record interval =
  seg_start :: rat
  seg_end :: rat
  confidence :: rat

text \<open>
  What the recognizer returns: a dict, of which the strategy reads the keys
  \<^verbatim>\<open>"text"\<close> (\<open>None\<close>: the key is missing) and \<^verbatim>\<open>"duration"\<close>
  (\<open>None\<close>: the value is \<^verbatim>\<open>None\<close>).
\<close>

record transcription =
  tr_text :: "string option"
  tr_duration :: "rat option"

record result_entry =
  segment :: int
  res_transcript :: string
  final :: int
  startTime :: rat
  endTime :: rat

record payload =
  payload_id :: string
  code :: int
  message :: string
  result :: "result_entry list"

text \<open>The frames a session puts on its websocket.\<close>

datatype frame = ResultText payload | ResultJson transcription | ConfigAck

subsection \<open>Python arithmetic\<close>

text \<open>\<^verbatim>\<open>int(x)\<close> on a float truncates towards zero.\<close>

definition py_int :: "rat \<Rightarrow> int" where
  "py_int x = (if x < 0 then - \<lfloor>- x\<rfloor> else \<lfloor>x\<rfloor>)"

text \<open>\<^verbatim>\<open>round(x, 3)\<close>: to three decimals, a tie going to the even neighbour.\<close>

definition py_round3 :: "rat \<Rightarrow> rat" where
  "py_round3 x =
     (let s = x * 1000; f = \<lfloor>s\<rfloor>; d = s - of_int f
      in of_int (if d < 1 / 2 then f
                 else if 1 / 2 < d then f + 1
                 else if even f then f else f + 1) / 1000)"

text \<open>True division \<^verbatim>\<open>a / b\<close> of a length by an int.\<close>

definition py_truediv :: "nat \<Rightarrow> int \<Rightarrow> error + rat" where
  "py_truediv a b = (if b = 0 then Inl ZeroDivisionError else Inr (of_nat a / of_int b))"

subsection \<open>Client and strategy objects\<close>

record processing_args =
  arg_chunk_length_seconds :: "rat option"
  arg_chunk_offset_seconds :: "rat option"
  arg_error_if_not_realtime :: "bool option"

record config =
  language :: "string option"
  processing_strategy :: string
  processing_args :: processing_args

text \<open>The dict handed to \<^verbatim>\<open>Client.update_config\<close>: each key may be absent.\<close>

record config_data =
  upd_language :: "string option"
  upd_processing_strategy :: "string option"
  upd_processing_args :: "processing_args option"

text \<open>
  The three environment variables \<^verbatim>\<open>SilenceAtEndOfChunk.__init__\<close> reads. A
  variable that is unset or empty is \<open>None\<close>; a number is given by its value.
\<close>

record env =
  env_chunk_length_seconds :: "rat option"
  env_chunk_offset_seconds :: "rat option"
  env_error_if_not_realtime :: bool

text \<open>
  A \<^verbatim>\<open>SilenceAtEndOfChunk\<close> object. Its \<^verbatim>\<open>client\<close> attribute is the one
  client of the session.
\<close>

record strategy =
  chunk_length_seconds :: rat
  chunk_offset_seconds :: rat
  error_if_not_realtime :: bool
  processing_flag :: bool
  start_time :: "rat option"

text \<open>
  A \<^verbatim>\<open>Client\<close> object. \<open>buffering_strategy\<close> is a reference into the store of
  strategy objects: a running task keeps the reference it was started with.
\<close>

record client =
  client_id :: string
  buffer :: "byte list"
  scratch_buffer :: "byte list"
  session_audio_buffer :: "byte list"
  client_config :: config
  file_counter :: nat
  chunk_save_counter :: nat
  total_samples :: rat
  sampling_rate :: int
  samples_width :: int
  buffering_strategy :: nat
  connect_time :: "rat option"
  job_id :: string
  last_start_time :: rat
  client_start_time :: rat
  transcript :: "payload list"
  connection_id :: "string option"

subsection \<open>SimpleVAD\<close>

record simple_vad =
  min_duration :: rat

definition detect_activity :: "simple_vad \<Rightarrow> client \<Rightarrow> error + interval list" where
  "detect_activity vad c =
     (if length (scratch_buffer c) = 0 then Inr []
      else case py_truediv (length (scratch_buffer c)) (sampling_rate c * samples_width c) of
             Inl e \<Rightarrow> Inl e
           | Inr audio_duration \<Rightarrow>
               if audio_duration < min_duration vad then Inr []
               else Inr [\<lparr>seg_start = 0, seg_end = audio_duration, confidence = 1\<rparr>])"

subsection \<open>SilenceAtEndOfChunk.__init__ and Client\<close>

definition SilenceAtEndOfChunk_init :: "env \<Rightarrow> processing_args \<Rightarrow> error + strategy" where
  "SilenceAtEndOfChunk_init e kwargs =
     (case (case env_chunk_length_seconds e of
              Some v \<Rightarrow> Some v | None \<Rightarrow> arg_chunk_length_seconds kwargs) of
        None \<Rightarrow> Inl TypeError
      | Some len \<Rightarrow>
         (case (case env_chunk_offset_seconds e of
                  Some v \<Rightarrow> Some v | None \<Rightarrow> arg_chunk_offset_seconds kwargs) of
            None \<Rightarrow> Inl TypeError
          | Some off \<Rightarrow>
              Inr \<lparr>chunk_length_seconds = len,
                   chunk_offset_seconds = off,
                   error_if_not_realtime =
                     (if env_error_if_not_realtime e then True
                      else case arg_error_if_not_realtime kwargs of
                             None \<Rightarrow> False | Some b \<Rightarrow> b),
                   processing_flag = False,
                   start_time = None\<rparr>))"

text \<open>
  Modelled from the spec: \<^verbatim>\<open>buffering_strategy/buffering_strategy_factory.py\<close> is not
  among the sources. The spec says that replacing the configuration rebuilds the
  segmentation strategy; the one strategy class of the sources is built for its name, and
  any other name is refused.
\<close>

definition create_buffering_strategy :: "env \<Rightarrow> string \<Rightarrow> processing_args \<Rightarrow> error + strategy" where
  "create_buffering_strategy e name kwargs =
     (if name = ''silence_at_end_of_chunk'' then SilenceAtEndOfChunk_init e kwargs
      else Inl ValueError)"

definition default_config :: config where
  "default_config =
     \<lparr>language = None,
      processing_strategy = ''silence_at_end_of_chunk'',
      processing_args =
        \<lparr>arg_chunk_length_seconds = Some (3 / 2),
         arg_chunk_offset_seconds = Some (1 / 10),
         arg_error_if_not_realtime = None\<rparr>\<rparr>"

text \<open>
  The state of one session: the client, the store of strategy objects (\<open>next_ref\<close> is
  the next free reference), the tasks made by \<^verbatim>\<open>asyncio.create_task\<close>, the warnings
  logged and the frames sent. Two fields only observe: \<open>recognised\<close> collects the
  buffers handed to the recognizer, \<open>discarded\<close> the bytes dropped when the detector
  finds no interval.
\<close>

datatype pc =
    Created
  | AwaitVad rat "error + interval list"
  | AwaitAsr rat
  | AwaitSend payload transcription
  | AwaitResend payload transcription
  | Finished
  | Failed error

record task =
  self_ref :: nat
  arg_start_time :: "rat option"
  arg_default_start_time :: rat
  task_pc :: pc

record world =
  the_client :: client
  strategies :: "nat \<Rightarrow> strategy"
  next_ref :: nat
  tasks :: "task list"
  log_warnings :: "string list"
  sent :: "frame list"
  recognised :: "byte list list"
  discarded :: "byte list list"
  has_send_json :: bool

text \<open>
  \<^verbatim>\<open>Client.__init__\<close>, with the clock reading \<open>now\<close>. The strategy it builds is
  stored at reference 0; the cells of the store not yet allocated hold a copy of it, to
  which nothing refers.
\<close>

definition Client_init ::
  "env \<Rightarrow> string \<Rightarrow> int \<Rightarrow> int \<Rightarrow> string \<Rightarrow> rat \<Rightarrow> payload list option \<Rightarrow> rat \<Rightarrow> bool
     \<Rightarrow> error + world" where
  "Client_init e cid rate width job lst tr now json =
     (case create_buffering_strategy e (processing_strategy default_config)
             (processing_args default_config) of
        Inl err \<Rightarrow> Inl err
      | Inr s \<Rightarrow>
          Inr \<lparr>the_client =
                 \<lparr>client_id = cid, buffer = [], scratch_buffer = [],
                  session_audio_buffer = [], client_config = default_config,
                  file_counter = 0, chunk_save_counter = 0, total_samples = 0,
                  sampling_rate = rate, samples_width = width, buffering_strategy = 0,
                  connect_time = None, job_id = job, last_start_time = lst,
                  client_start_time = now,
                  transcript = (case tr of None \<Rightarrow> [] | Some ps \<Rightarrow> ps),
                  connection_id = None\<rparr>,
               strategies = (\<lambda>_. s), next_ref = 1, tasks = [], log_warnings = [],
               sent = [], recognised = [], discarded = [], has_send_json = json\<rparr>)"

text \<open>
  \<^verbatim>\<open>Client.update_config\<close>: the dict is merged key by key, then a new strategy
  object is built and the client's reference is pointed at it. The old object stays in the
  store, where the tasks started from it still find it.
\<close>

definition merge_config :: "config \<Rightarrow> config_data \<Rightarrow> config" where
  "merge_config cfg d =
     \<lparr>language = (case upd_language d of None \<Rightarrow> language cfg | Some l \<Rightarrow> Some l),
      processing_strategy =
        (case upd_processing_strategy d of None \<Rightarrow> processing_strategy cfg | Some n \<Rightarrow> n),
      processing_args =
        (case upd_processing_args d of None \<Rightarrow> processing_args cfg | Some a \<Rightarrow> a)\<rparr>"

definition update_config :: "env \<Rightarrow> config_data \<Rightarrow> world \<Rightarrow> error + world" where
  "update_config e d w =
     (let cfg = merge_config (client_config (the_client w)) d
      in case create_buffering_strategy e (processing_strategy cfg) (processing_args cfg) of
           Inl err \<Rightarrow> Inl err
         | Inr s \<Rightarrow>
             Inr (w\<lparr>the_client :=
                      (the_client w)\<lparr>client_config := cfg, buffering_strategy := next_ref w\<rparr>,
                    strategies := (strategies w)(next_ref w := s),
                    next_ref := Suc (next_ref w)\<rparr>))"

definition append_audio_data :: "byte list \<Rightarrow> client \<Rightarrow> error + client" where
  "append_audio_data audio_data c =
     (if samples_width c = 0 then Inl ZeroDivisionError
      else Inr (c\<lparr>buffer := buffer c @ audio_data,
                  session_audio_buffer := session_audio_buffer c @ audio_data,
                  total_samples :=
                    total_samples c + of_nat (length audio_data) / of_int (samples_width c)\<rparr>))"

subsection \<open>SilenceAtEndOfChunk.process_audio\<close>

definition realtime_warning :: string where
  "realtime_warning =
     ''Error in realtime processing: tried processing a new chunk while the previous one was still being processed''"

definition chunk_length_in_bytes :: "strategy \<Rightarrow> client \<Rightarrow> rat" where
  "chunk_length_in_bytes s c =
     chunk_length_seconds s * of_int (sampling_rate c) * of_int (samples_width c)"

text \<open>
  \<open>t1\<close> and \<open>t2\<close> are what the two calls of \<^verbatim>\<open>time.time()\<close> return, when they are
  made. The method runs on the strategy object the client refers to at the call.
\<close>

definition process_audio :: "rat \<Rightarrow> rat \<Rightarrow> world \<Rightarrow> world" where
  "process_audio t1 t2 w =
     (let r = buffering_strategy (the_client w);
          c = (if connect_time (the_client w) = None \<and> 0 < length (buffer (the_client w))
               then (the_client w)\<lparr>connect_time := Some t1\<rparr> else the_client w);
          s = (if start_time (strategies w r) = None
               then (strategies w r)\<lparr>start_time := Some t2\<rparr> else strategies w r)
      in if chunk_length_in_bytes s c < of_nat (length (buffer c)) then
           w\<lparr>the_client := c\<lparr>scratch_buffer := scratch_buffer c @ buffer c, buffer := []\<rparr>,
             strategies := (strategies w)(r := s\<lparr>processing_flag := True, start_time := None\<rparr>),
             tasks := tasks w @
               [\<lparr>self_ref = r, arg_start_time = start_time s,
                 arg_default_start_time = last_start_time c, task_pc = Created\<rparr>],
             log_warnings :=
               (if processing_flag s then log_warnings w @ [realtime_warning]
                else log_warnings w)\<rparr>
         else w\<lparr>the_client := c, strategies := (strategies w)(r := s)\<rparr>)"

subsection \<open>SilenceAtEndOfChunk.process_audio_async\<close>

text \<open>
  The coroutine suspends at \<^verbatim>\<open>await vad_pipeline.detect_activity\<close>, at
  \<^verbatim>\<open>await asr_pipeline.transcribe\<close> and at the sends. What the detector, the
  recognizer and the websocket answer is an input of the step that makes the call or
  resumes from it. No step catches an exception of the detector or of the recognizer: the
  task ends with it (\<open>Failed\<close>). The locals \<^verbatim>\<open>start_process_time\<close> and
  \<^verbatim>\<open>processing_time\<close> are computed and never used; they are left out.
\<close>

definition set_pc :: "nat \<Rightarrow> pc \<Rightarrow> world \<Rightarrow> world" where
  "set_pc i p w = w\<lparr>tasks := (tasks w)[i := (tasks w ! i)\<lparr>task_pc := p\<rparr>]\<rparr>"

definition set_flag :: "nat \<Rightarrow> bool \<Rightarrow> world \<Rightarrow> world" where
  "set_flag r b w = w\<lparr>strategies := (strategies w)(r := (strategies w r)\<lparr>processing_flag := b\<rparr>)\<rparr>"

text \<open>Lines 106 to 110: the start time of the segment, then the call of the detector.\<close>

definition start_transcribe_time :: "task \<Rightarrow> client \<Rightarrow> error + rat" where
  "start_transcribe_time t c =
     (case arg_start_time t of
        None \<Rightarrow> Inl TypeError
      | Some st \<Rightarrow>
         (case connect_time c of
            None \<Rightarrow> Inl TypeError
          | Some ct \<Rightarrow> Inr (of_int (py_int (st - ct)) + arg_default_start_time t)))"

definition task_begin :: "nat \<Rightarrow> (error + interval list) \<Rightarrow> world \<Rightarrow> world" where
  "task_begin i vad_results w =
     (case start_transcribe_time (tasks w ! i) (the_client w) of
        Inl e \<Rightarrow> set_pc i (Failed e) w
      | Inr stt \<Rightarrow> set_pc i (AwaitVad stt vad_results) w)"

text \<open>Lines 118 to 126.\<close>

definition last_segment_should_end_before :: "strategy \<Rightarrow> client \<Rightarrow> error + rat" where
  "last_segment_should_end_before s c =
     (case py_truediv (length (scratch_buffer c)) (sampling_rate c * samples_width c) of
        Inl e \<Rightarrow> Inl e
      | Inr q \<Rightarrow> Inr (q - chunk_offset_seconds s))"

definition should_transcribe :: "interval list \<Rightarrow> rat \<Rightarrow> bool" where
  "should_transcribe vad_results cutoff \<longleftrightarrow> seg_end (last vad_results) < cutoff \<or> 2 < cutoff"

text \<open>Lines 110 to 127: resuming with the detector's answer.\<close>

definition task_vad_done :: "nat \<Rightarrow> rat \<Rightarrow> (error + interval list) \<Rightarrow> world \<Rightarrow> world" where
  "task_vad_done i stt answer w =
     (let r = self_ref (tasks w ! i) in
      case answer of
        Inl e \<Rightarrow> set_pc i (Failed e) w
      | Inr vad_results \<Rightarrow>
          if length vad_results = 0 then
            set_pc i Finished
              (set_flag r False
                 (w\<lparr>the_client := (the_client w)\<lparr>scratch_buffer := [], buffer := []\<rparr>,
                    discarded := discarded w
                      @ [scratch_buffer (the_client w) @ buffer (the_client w)]\<rparr>))
          else
            case last_segment_should_end_before (strategies w r) (the_client w) of
              Inl e \<Rightarrow> set_pc i (Failed e) w
            | Inr cutoff \<Rightarrow>
                if should_transcribe vad_results cutoff then
                  set_pc i (AwaitAsr stt)
                    (w\<lparr>recognised := recognised w @ [scratch_buffer (the_client w)]\<rparr>)
                else set_pc i Finished (set_flag r False w))"

text \<open>
  The success message of the payload, the UTF-8 bytes of the four Chinese characters of the
  source.
\<close>

definition success_message :: string where
  "success_message =
     map char_of [232, 189, 137, 232, 173, 175, 230, 136, 144, 229, 138, 159 :: nat]"

definition make_payload :: "client \<Rightarrow> string \<Rightarrow> transcription \<Rightarrow> rat \<Rightarrow> rat \<Rightarrow> payload" where
  "make_payload c uuid tr start_time_sec end_time_sec =
     \<lparr>payload_id =
        (case connection_id c of
           None \<Rightarrow> uuid
         | Some cid \<Rightarrow> if cid = [] then uuid else cid),
      code = 200,
      message = success_message,
      result =
        [\<lparr>segment = 0,
          res_transcript = (case tr_text tr of None \<Rightarrow> [] | Some txt \<Rightarrow> txt),
          final = 1,
          startTime = py_round3 start_time_sec,
          endTime = py_round3 end_time_sec\<rparr>]\<rparr>"

text \<open>Lines 179 to 182: the end of an attempt that called the recognizer.\<close>

definition finish_attempt :: "nat \<Rightarrow> nat \<Rightarrow> world \<Rightarrow> world" where
  "finish_attempt i r w =
     set_pc i Finished
       (set_flag r False
          (w\<lparr>the_client :=
               (the_client w)\<lparr>scratch_buffer := [],
                               file_counter := Suc (file_counter (the_client w))\<rparr>\<rparr>))"

text \<open>
  Lines 127 to 165: resuming with the recognizer's answer; \<open>now\<close> is the clock reading
  of line 130 and \<open>uuid\<close> the identifier made when the client has none.
\<close>

definition task_asr_done ::
  "nat \<Rightarrow> rat \<Rightarrow> (error + transcription option) \<Rightarrow> rat \<Rightarrow> string \<Rightarrow> world \<Rightarrow> world" where
  "task_asr_done i stt answer now uuid w =
     (let r = self_ref (tasks w ! i) in
      case answer of
        Inl e \<Rightarrow> set_pc i (Failed e) w
      | Inr None \<Rightarrow> finish_attempt i r w
      | Inr (Some tr) \<Rightarrow>
          if tr_text tr = None then finish_attempt i r w
          else
            let w1 = w\<lparr>strategies := (strategies w)(r := (strategies w r)\<lparr>start_time := Some now\<rparr>)\<rparr>
            in case tr_duration tr of
                 None \<Rightarrow> set_pc i (Failed TypeError) w1
               | Some d \<Rightarrow>
                   set_pc i (AwaitSend (make_payload (the_client w) uuid tr stt (stt + d)) tr) w1)"

text \<open>Lines 161 to 182: the sends, and what follows a send that went through.\<close>

datatype send_outcome = SendOk | SendTypeError | SendRaises error

definition after_send :: "nat \<Rightarrow> frame \<Rightarrow> payload \<Rightarrow> world \<Rightarrow> world" where
  "after_send i f p w =
     finish_attempt i (self_ref (tasks w ! i))
       (w\<lparr>sent := sent w @ [f],
          the_client := (the_client w)\<lparr>transcript := transcript (the_client w) @ [p]\<rparr>\<rparr>)"

definition task_send_done :: "nat \<Rightarrow> payload \<Rightarrow> transcription \<Rightarrow> send_outcome \<Rightarrow> world \<Rightarrow> world" where
  "task_send_done i p tr outcome w =
     (case outcome of
        SendOk \<Rightarrow> after_send i (ResultText p) p w
      | SendTypeError \<Rightarrow> set_pc i (AwaitResend p tr) w
      | SendRaises e \<Rightarrow> set_pc i (Failed e) w)"

definition task_resend_done :: "nat \<Rightarrow> payload \<Rightarrow> transcription \<Rightarrow> send_outcome \<Rightarrow> world \<Rightarrow> world" where
  "task_resend_done i p tr outcome w =
     (case outcome of
        SendOk \<Rightarrow> after_send i (if has_send_json w then ResultJson tr else ResultText p) p w
      | SendTypeError \<Rightarrow> set_pc i (Failed TypeError) w
      | SendRaises e \<Rightarrow> set_pc i (Failed e) w)"

subsection \<open>The event loop\<close>

text \<open>
  What can happen to a session: the receive loop of \<^verbatim>\<open>handle_audio\<close> takes an audio
  frame or a configuration message, or a task runs up to its next suspension point. What
  the outside answers comes with the event. An event for a task that is not at that point
  does nothing. The detector and the recognizer are taken to be initialised, so that every
  audio frame reaches \<^verbatim>\<open>process_audio\<close>.
\<close>

datatype event =
    Audio "byte list" rat rat
  | Config config_data "int option"
  | Begin nat "error + interval list"
  | VadDone nat
  | AsrDone nat "error + transcription option" rat string
  | SendDone nat send_outcome

definition handle_config :: "env \<Rightarrow> config_data \<Rightarrow> int option \<Rightarrow> world \<Rightarrow> error + world" where
  "handle_config e d sample_rate w =
     (case (if upd_language d = None \<and> upd_processing_strategy d = None
                \<and> upd_processing_args d = None
            then Inr w else update_config e d w) of
        Inl err \<Rightarrow> Inl err
      | Inr w1 \<Rightarrow>
          Inr (w1\<lparr>the_client :=
                    (case sample_rate of
                       None \<Rightarrow> the_client w1
                     | Some sr \<Rightarrow> (the_client w1)\<lparr>sampling_rate := sr\<rparr>),
                  sent := sent w1 @ [ConfigAck]\<rparr>))"

definition handle_frame :: "byte list \<Rightarrow> rat \<Rightarrow> rat \<Rightarrow> world \<Rightarrow> error + world" where
  "handle_frame audio_chunk t1 t2 w =
     (case (if audio_chunk = [] then Inr (the_client w)
            else append_audio_data audio_chunk (the_client w)) of
        Inl err \<Rightarrow> Inl err
      | Inr c \<Rightarrow> Inr (process_audio t1 t2 (w\<lparr>the_client := c\<rparr>)))"

definition task_step :: "nat \<Rightarrow> event \<Rightarrow> world \<Rightarrow> world" where
  "task_step i ev w =
     (if length (tasks w) \<le> i then w
      else case (task_pc (tasks w ! i), ev) of
             (Created, Begin _ answer) \<Rightarrow> task_begin i answer w
           | (AwaitVad stt answer, VadDone _) \<Rightarrow> task_vad_done i stt answer w
           | (AwaitAsr stt, AsrDone _ answer now uuid) \<Rightarrow> task_asr_done i stt answer now uuid w
           | (AwaitSend p tr, SendDone _ outcome) \<Rightarrow> task_send_done i p tr outcome w
           | (AwaitResend p tr, SendDone _ outcome) \<Rightarrow> task_resend_done i p tr outcome w
           | _ \<Rightarrow> w)"

fun step :: "env \<Rightarrow> event \<Rightarrow> world \<Rightarrow> error + world" where
  "step e (Audio audio_chunk t1 t2) w = handle_frame audio_chunk t1 t2 w"
| "step e (Config d sample_rate) w = handle_config e d sample_rate w"
| "step e (Begin i answer) w = Inr (task_step i (Begin i answer) w)"
| "step e (VadDone i) w = Inr (task_step i (VadDone i) w)"
| "step e (AsrDone i answer now uuid) w = Inr (task_step i (AsrDone i answer now uuid) w)"
| "step e (SendDone i outcome) w = Inr (task_step i (SendDone i outcome) w)"

text \<open>An exception in the receive loop ends the session: the run stops with it.\<close>

fun run :: "env \<Rightarrow> event list \<Rightarrow> world \<Rightarrow> error + world" where
  "run e [] w = Inr w"
| "run e (ev # evs) w = (case step e ev w of Inl err \<Rightarrow> Inl err | Inr w1 \<Rightarrow> run e evs w1)"

subsection \<open>The websocket endpoint\<close>


definition SUCCESS :: int where "SUCCESS = 200"
definition UNAUTHORIZED :: int where "UNAUTHORIZED = 401"
definition TIMEOUT :: int where "TIMEOUT = 408"







subsection \<open>Observations on a session\<close>

text \<open>A task is live from its creation until it finishes or ends with an exception.\<close>

fun live :: "pc \<Rightarrow> bool" where
  "live Finished = False"
| "live (Failed e) = False"
| "live p = True"

fun is_failed :: "pc \<Rightarrow> bool" where
  "is_failed (Failed e) = True"
| "is_failed p = False"

text \<open>A task that has called the recognizer and has not yet ended.\<close>

fun past_call :: "pc \<Rightarrow> bool" where
  "past_call (AwaitAsr stt) = True"
| "past_call (AwaitSend p tr) = True"
| "past_call (AwaitResend p tr) = True"
| "past_call p = False"

definition idle :: "world \<Rightarrow> bool" where
  "idle w \<longleftrightarrow> list_all (\<lambda>t. \<not> live (task_pc t)) (tasks w)"

definition recognising :: "world \<Rightarrow> bool" where
  "recognising w \<longleftrightarrow> list_ex (\<lambda>t. past_call (task_pc t)) (tasks w)"

definition delivered_bytes :: "world \<Rightarrow> nat" where
  "delivered_bytes w = sum_list (map length (recognised w))"

definition discarded_bytes :: "world \<Rightarrow> nat" where
  "discarded_bytes w = sum_list (map length (discarded w))"

definition remaining_bytes :: "world \<Rightarrow> nat" where
  "remaining_bytes w = length (buffer (the_client w)) + length (scratch_buffer (the_client w))"

definition appended_bytes :: "world \<Rightarrow> nat" where
  "appended_bytes w = length (session_audio_buffer (the_client w))"

text \<open>The start times of the result messages sent, in the order of sending.\<close>

fun frame_start_times :: "frame \<Rightarrow> rat list" where
  "frame_start_times (ResultText p) = map startTime (result p)"
| "frame_start_times f = []"

definition sent_start_times :: "world \<Rightarrow> rat list" where
  "sent_start_times w = concat (map frame_start_times (sent w))"

text \<open>
  A run is orderly when every new attempt is started while no task is live, and no task
  ends with an exception.
\<close>

definition quiet :: "world \<Rightarrow> world \<Rightarrow> bool" where
  "quiet w w1 \<longleftrightarrow>
     (length (tasks w) < length (tasks w1) \<longrightarrow> idle w)
     \<and> list_all (\<lambda>t. \<not> is_failed (task_pc t)) (tasks w1)"

fun orderly :: "env \<Rightarrow> event list \<Rightarrow> world \<Rightarrow> bool" where
  "orderly e [] w = True"
| "orderly e (ev # evs) w =
     (case step e ev w of Inl err \<Rightarrow> False | Inr w1 \<Rightarrow> quiet w w1 \<and> orderly e evs w1)"

subsection \<open>Sessions used as examples\<close>

definition no_env :: env where
  "no_env = \<lparr>env_chunk_length_seconds = None, env_chunk_offset_seconds = None,
             env_error_if_not_realtime = False\<rparr>"

text \<open>The session the endpoint builds: 16000 Hz, two bytes a sample, default configuration.\<close>

definition session0 :: world where
  "session0 =
     \<lparr>the_client =
        \<lparr>client_id = ''user'', buffer = [], scratch_buffer = [],
         session_audio_buffer = [], client_config = default_config,
         file_counter = 0, chunk_save_counter = 0, total_samples = 0,
         sampling_rate = 16000, samples_width = 2, buffering_strategy = 0,
         connect_time = None, job_id = ''job_0'', last_start_time = 0,
         client_start_time = 0, transcript = [], connection_id = None\<rparr>,
      strategies =
        (\<lambda>_. \<lparr>chunk_length_seconds = 3 / 2, chunk_offset_seconds = 1 / 10,
               error_if_not_realtime = False, processing_flag = False, start_time = None\<rparr>),
      next_ref = 1, tasks = [], log_warnings = [], sent = [], recognised = [],
      discarded = [], has_send_json = True\<rparr>"

text \<open>
  Scenario A of the specification: two seconds of audio in the working buffer, the
  detector's one interval ending at 1.8 s.
\<close>

definition scenario_A :: world where
  "scenario_A =
     session0\<lparr>the_client :=
                (the_client session0)\<lparr>scratch_buffer := replicate 64000 0,
                                        connect_time := Some 0\<rparr>,
              tasks :=
                [\<lparr>self_ref = 0, arg_start_time = Some 0, arg_default_start_time = 0,
                  task_pc = AwaitVad 0 (Inr [\<lparr>seg_start = 0, seg_end = 9 / 5, confidence = 1\<rparr>])\<rparr>]\<rparr>"

text \<open>
  Scenario B of the specification: the detector found nothing in two seconds of audio;
  four more bytes have arrived since the task was started.
\<close>

definition scenario_B :: world where
  "scenario_B =
     session0\<lparr>the_client :=
                (the_client session0)\<lparr>scratch_buffer := replicate 64000 0,
                                        buffer := [1, 2, 3, 4],
                                        session_audio_buffer := replicate 64000 0 @ [1, 2, 3, 4],
                                        connect_time := Some 0\<rparr>,
              strategies :=
                (strategies session0)(0 := (strategies session0 0)\<lparr>processing_flag := True\<rparr>),
              tasks :=
                [\<lparr>self_ref = 0, arg_start_time = Some 0, arg_default_start_time = 0,
                  task_pc = AwaitVad 0 (Inr [])\<rparr>]\<rparr>"

definition frame70k :: "byte list" where
  "frame70k = replicate 70000 0"

text \<open>
  A session whose one task waits for the recognizer, with 40000 more bytes pending: less
  than the 48000 of the default chunk length.
\<close>

definition scenario_processing :: world where
  "scenario_processing =
     session0\<lparr>the_client :=
                (the_client session0)\<lparr>scratch_buffer := frame70k,
                                        buffer := replicate 40000 0,
                                        session_audio_buffer := frame70k @ replicate 40000 0,
                                        connect_time := Some 0\<rparr>,
              strategies :=
                (strategies session0)(0 := (strategies session0 0)\<lparr>processing_flag := True\<rparr>),
              tasks :=
                [\<lparr>self_ref = 0, arg_start_time = Some 0, arg_default_start_time = 0,
                  task_pc = AwaitAsr 0\<rparr>],
              recognised := [frame70k]\<rparr>"

text \<open>The same session as \<open>session0\<close>, started with \<^verbatim>\<open>ERROR_IF_NOT_REALTIME\<close> set.\<close>

definition strict_env :: env where
  "strict_env = \<lparr>env_chunk_length_seconds = None, env_chunk_offset_seconds = None,
                 env_error_if_not_realtime = True\<rparr>"

definition session_strict :: world where
  "session_strict =
     session0\<lparr>strategies := (\<lambda>_. (strategies session0 0)\<lparr>error_if_not_realtime := True\<rparr>)\<rparr>"

text \<open>What SimpleVAD answers for a buffer of duration \<open>d\<close>, and a recognizer's result.\<close>

definition whole :: "rat \<Rightarrow> interval" where
  "whole d = \<lparr>seg_start = 0, seg_end = d, confidence = 1\<rparr>"

definition heard :: "string \<Rightarrow> rat \<Rightarrow> error + transcription option" where
  "heard txt d = Inr (Some \<lparr>tr_text = Some txt, tr_duration = Some d\<rparr>)"

text \<open>
  A slow recognizer: a second frame of 70000 bytes arrives, at clock reading 5, while the
  recognizer works on the first; the second attempt's result is sent first.
\<close>

definition overlap_trace :: "event list" where
  "overlap_trace =
     [Audio frame70k 0 0, Begin 0 (Inr [whole (35 / 16)]), VadDone 0,
      Audio frame70k 5 5, Begin 1 (Inr [whole (35 / 8)]), VadDone 1,
      AsrDone 1 (heard ''b'' 1) 6 ''id'', SendDone 1 SendOk,
      AsrDone 0 (heard ''a'' 1) 7 ''id'', SendDone 0 SendOk]"

text \<open>A detector that finds nothing, four bytes arriving while it works.\<close>

definition silence_trace :: "event list" where
  "silence_trace =
     [Audio (replicate 48001 0) 0 0, Begin 0 (Inr []), Audio [1, 2, 3, 4] 1 1, VadDone 0]"

definition no_update :: config_data where
  "no_update = \<lparr>upd_language = None, upd_processing_strategy = None, upd_processing_args = None\<rparr>"



text \<open>
  An orderly run: one attempt that ends in a result, four bytes arriving meanwhile, then
  an attempt in which the detector finds nothing.
\<close>

definition orderly_trace :: "event list" where
  "orderly_trace =
     [Audio frame70k 0 0, Begin 0 (Inr [whole (35 / 16)]), VadDone 0,
      Audio [1, 2, 3, 4] 1 1, AsrDone 0 (heard ''a'' 1) 3 ''id'', SendDone 0 SendOk,
      Audio (replicate 48001 0) 4 4, Begin 1 (Inr []), VadDone 1]"

text \<open>A configuration message that shortens the chunk length to one second.\<close>

definition shorter_chunks :: config_data where
  "shorter_chunks =
     no_update\<lparr>upd_processing_args :=
                 Some \<lparr>arg_chunk_length_seconds = Some 1, arg_chunk_offset_seconds = Some (1 / 10),
                       arg_error_if_not_realtime = None\<rparr>\<rparr>"

subsection \<open>The invariant of orderly runs\<close>

definition settled :: "task list \<Rightarrow> bool" where
  "settled xs \<longleftrightarrow> list_all (\<lambda>u. task_pc u = Finished) xs"

text \<open>
  Every task but the last has finished, no task has failed, and every byte appended is
  counted once: as delivered, as discarded, in the pending buffer, or in the working
  buffer, which is left out while its bytes are with the recognizer.
\<close>

definition accounted :: "world \<Rightarrow> bool" where
  "accounted w \<longleftrightarrow>
     settled (butlast (tasks w))
     \<and> list_all (\<lambda>t. \<not> is_failed (task_pc t)) (tasks w)
     \<and> delivered_bytes w + discarded_bytes w + length (buffer (the_client w))
         + (if recognising w then 0 else length (scratch_buffer (the_client w)))
       = appended_bytes w"

section \<open>Properties\<close>

lemmas step_defs = handle_frame_def handle_config_def task_step_def task_begin_def
  task_vad_done_def task_asr_done_def task_send_done_def task_resend_done_def
  after_send_def finish_attempt_def set_pc_def set_flag_def process_audio_def
  append_audio_data_def update_config_def merge_config_def create_buffering_strategy_def
  SilenceAtEndOfChunk_init_def start_transcribe_time_def last_segment_should_end_before_def
  should_transcribe_def py_truediv_def chunk_length_in_bytes_def make_payload_def

lemma Client_init_session0:
  "Client_init no_env ''user'' 16000 2 ''job_0'' 0 (Some []) 0 True = Inr session0"
  by (simp add: Client_init_def create_buffering_strategy_def default_config_def
      SilenceAtEndOfChunk_init_def no_env_def session0_def)

text \<open>
  C9. SimpleVAD: when the sample rate times the sample width is not zero (so that the
  duration is defined), \<^verbatim>\<open>detect_activity\<close> returns the empty list for the empty
  working buffer and for one whose duration is below \<open>min_duration\<close>, and otherwise
  exactly one interval, from 0 to the duration of the buffer, with confidence 1.
\<close>

theorem simple_vad_contract:
  assumes "sampling_rate c * samples_width c \<noteq> 0"
  shows "detect_activity vad c =
           Inr (if scratch_buffer c = [] \<or>
                   of_nat (length (scratch_buffer c)) / of_int (sampling_rate c * samples_width c)
                     < min_duration vad
                then []
                else [\<lparr>seg_start = 0,
                       seg_end = of_nat (length (scratch_buffer c))
                                 / of_int (sampling_rate c * samples_width c),
                       confidence = 1\<rparr>])"
  using assms by (simp add: detect_activity_def py_truediv_def)

theorem simple_vad_contract_witness:
  "detect_activity \<lparr>min_duration = 1 / 10\<rparr> (the_client scenario_A)
     = Inr [\<lparr>seg_start = 0, seg_end = 2, confidence = 1\<rparr>]
   \<and> detect_activity \<lparr>min_duration = 1 / 10\<rparr> (the_client session0) = Inr []"
  using simple_vad_contract [of "the_client scenario_A" "\<lparr>min_duration = 1 / 10\<rparr>"]
    simple_vad_contract [of "the_client session0" "\<lparr>min_duration = 1 / 10\<rparr>"]
  by (simp add: scenario_A_def session0_def)



subsection \<open>The steps of a task\<close>

lemmas run_simps = step_defs frame70k_def whole_def heard_def session0_def no_env_def Let_def
  py_int_def py_round3_def

lemma Client_init_strict:
  "Client_init strict_env ''user'' 16000 2 ''job_0'' 0 (Some []) 0 True = Inr session_strict"
  by (simp add: Client_init_def create_buffering_strategy_def default_config_def
      SilenceAtEndOfChunk_init_def strict_env_def session0_def session_strict_def)


text \<open>
  C1. The source breaks the claim. The session is the one the endpoint builds, started
  with \<^verbatim>\<open>ERROR_IF_NOT_REALTIME\<close> set. A frame of 70000 bytes starts a task, which runs
  up to its call of the recognizer: \<open>processing_flag\<close> is true. A second frame arrives
  before the recognizer answers: \<^verbatim>\<open>process_audio\<close> logs the warning and goes on to start
  a second task, which calls the recognizer as well, on 140000 bytes, while the first call
  is outstanding.
\<close>

theorem second_attempt_started_while_processing:
  "map_sum id (\<lambda>w. (processing_flag (strategies w 0), error_if_not_realtime (strategies w 0),
                     map task_pc (tasks w)))
     (run strict_env (take 3 overlap_trace) session_strict)
     = Inr (True, True, [AwaitAsr 0])
   \<and> map_sum id (\<lambda>w. (map task_pc (tasks w), log_warnings w))
       (run strict_env (take 4 overlap_trace) session_strict)
     = Inr ([AwaitAsr 0, Created], [realtime_warning])
   \<and> map_sum id (\<lambda>w. (map task_pc (tasks w), map length (recognised w)))
       (run strict_env (take 6 overlap_trace) session_strict)
     = Inr ([AwaitAsr 0, AwaitAsr 5], [70000, 140000])"
  by (simp add: overlap_trace_def run_simps session_strict_def strict_env_def)




text \<open>
  C3, as stated, fails. Four bytes arrive while the detector works on a promoted chunk;
  the detector returns the empty list, and the pending buffer, which held the four bytes,
  is empty afterwards.
\<close>

theorem pending_buffer_cleared_counterexample:
  "map_sum id (\<lambda>w. buffer (the_client w)) (run no_env (take 3 silence_trace) session0)
     = Inr [1, 2, 3, 4]
   \<and> map_sum id (\<lambda>w. (buffer (the_client w), task_pc (tasks w ! 0)))
       (run no_env silence_trace session0)
     = Inr ([], Finished)"
  by (simp add: silence_trace_def run_simps)

text \<open>
  C3, amended. Whenever the detector returns the empty list for a promoted chunk, the
  working buffer is discarded, no result message is sent, the recognizer is not called,
  \<open>processing_flag\<close> of the task's strategy becomes false and the task ends; the pending
  buffer is cleared as well.
\<close>

theorem empty_detection_clears_both_buffers:
  assumes "i < length (tasks w)"
    and "task_pc (tasks w ! i) = AwaitVad stt (Inr [])"
  shows "scratch_buffer (the_client (task_step i (VadDone i) w)) = []
       \<and> buffer (the_client (task_step i (VadDone i) w)) = []
       \<and> sent (task_step i (VadDone i) w) = sent w
       \<and> recognised (task_step i (VadDone i) w) = recognised w
       \<and> processing_flag (strategies (task_step i (VadDone i) w) (self_ref (tasks w ! i))) = False
       \<and> task_pc (tasks (task_step i (VadDone i) w) ! i) = Finished"
  using assms by (simp add: task_step_def task_vad_done_def set_pc_def set_flag_def Let_def)

theorem empty_detection_clears_both_buffers_witness:
  "buffer (the_client scenario_B) = [1, 2, 3, 4]
   \<and> buffer (the_client (task_step 0 (VadDone 0) scenario_B)) = []
   \<and> scratch_buffer (the_client (task_step 0 (VadDone 0) scenario_B)) = []
   \<and> sent (task_step 0 (VadDone 0) scenario_B) = []
   \<and> processing_flag (strategies (task_step 0 (VadDone 0) scenario_B) 0) = False"
  using empty_detection_clears_both_buffers [of 0 scenario_B 0]
  by (simp add: scenario_B_def session0_def)




text \<open>
  C7. The source breaks the claim, through the defect of C1. In the run of the slow
  recognizer the second attempt, whose chunk began at clock reading 5, has its result sent
  first; the result of the first attempt, which starts at 0, is sent after it.
\<close>

theorem results_sent_out_of_order:
  "map_sum id sent_start_times (run no_env overlap_trace session0) = Inr [5, 0]"
  by (simp add: overlap_trace_def run_simps sent_start_times_def)

subsection \<open>Configuration updates and admission\<close>

text \<open>
  C10. Every call of \<^verbatim>\<open>update_config\<close> that returns points the client at a strategy
  object made by the call, whose \<open>processing_flag\<close> is false; the objects made before,
  the tasks and both buffers are untouched, whatever the tasks are doing. So when the
  pending buffer is over the new threshold, the next \<^verbatim>\<open>process_audio\<close> starts a task
  beside those already running, and logs no warning.
\<close>

theorem update_config_reopens_trigger:
  assumes "update_config e d w = Inr w'"
    and "chunk_length_in_bytes (strategies w' (next_ref w)) (the_client w')
           < of_nat (length (buffer (the_client w')))"
  shows "buffering_strategy (the_client w') = next_ref w
       \<and> processing_flag (strategies w' (next_ref w)) = False
       \<and> (\<forall>r. r \<noteq> next_ref w \<longrightarrow> strategies w' r = strategies w r)
       \<and> tasks w' = tasks w
       \<and> buffer (the_client w') = buffer (the_client w)
       \<and> scratch_buffer (the_client w') = scratch_buffer (the_client w)
       \<and> tasks (process_audio t1 t2 w')
           = tasks w @ [\<lparr>self_ref = next_ref w, arg_start_time = Some t2,
                         arg_default_start_time = last_start_time (the_client w),
                         task_pc = Created\<rparr>]
       \<and> log_warnings (process_audio t1 t2 w') = log_warnings w"
proof -
  from assms(1) obtain s where
    s: "create_buffering_strategy e
          (processing_strategy (merge_config (client_config (the_client w)) d))
          (processing_args (merge_config (client_config (the_client w)) d)) = Inr s"
    and w': "w' = w\<lparr>the_client :=
                      (the_client w)\<lparr>client_config := merge_config (client_config (the_client w)) d,
                                     buffering_strategy := next_ref w\<rparr>,
                    strategies := (strategies w)(next_ref w := s),
                    next_ref := Suc (next_ref w)\<rparr>"
    by (auto simp add: update_config_def Let_def split: sum.splits)
  from s have fresh: "processing_flag s = False" "start_time s = None"
    by (auto simp add: create_buffering_strategy_def SilenceAtEndOfChunk_init_def
        split: if_splits option.splits)
  from assms(2) fresh show ?thesis
    unfolding w' by (simp add: process_audio_def Let_def chunk_length_in_bytes_def)
qed

theorem update_config_reopens_trigger_witness:
  "map_sum id (\<lambda>w'. (map task_pc (tasks (process_audio 5 5 w')),
                      log_warnings (process_audio 5 5 w'),
                      processing_flag (strategies w' 0), processing_flag (strategies w' 1)))
     (update_config no_env shorter_chunks scenario_processing)
   = Inr ([AwaitAsr 0, Created], [], True, False)"
proof -
  obtain w' where w': "update_config no_env shorter_chunks scenario_processing = Inr w'"
    by (simp add: shorter_chunks_def no_update_def scenario_processing_def run_simps
        default_config_def)
  have "chunk_length_in_bytes (strategies w' (next_ref scenario_processing)) (the_client w')
           < of_nat (length (buffer (the_client w')))"
    using w'
    by (auto simp add: shorter_chunks_def no_update_def scenario_processing_def run_simps
        default_config_def)
  from update_config_reopens_trigger [OF w' this, of 5 5] w' show ?thesis
    by (auto simp add: shorter_chunks_def no_update_def scenario_processing_def run_simps
        default_config_def)
qed



subsection \<open>Byte accounting\<close>

text \<open>
  C5, as stated, fails. The detector finds nothing in a chunk of 48001 bytes, four more
  bytes having arrived meanwhile: no byte was delivered to the recognizer, none remains in
  either buffer, and 48005 were appended.
\<close>

theorem bytes_lost_counterexample:
  "map_sum id (\<lambda>w. (delivered_bytes w, remaining_bytes w, appended_bytes w))
     (run no_env silence_trace session0)
   = Inr (0, 0, 48005)"
  by (simp add: silence_trace_def run_simps delivered_bytes_def remaining_bytes_def
      appended_bytes_def)

lemma settled_not_past: "settled xs \<Longrightarrow> \<not> list_ex (\<lambda>t. past_call (task_pc t)) xs"
  by (induction xs) (auto simp: settled_def)

lemma recognising_last:
  "tasks w = xs @ [t] \<Longrightarrow> settled xs \<Longrightarrow> recognising w = past_call (task_pc t)"
  using settled_not_past [of xs] by (simp add: recognising_def)

lemma task_step_noop_finished:
  "i < length (tasks w) \<Longrightarrow> task_pc (tasks w ! i) = Finished \<Longrightarrow> task_step i ev w = w"
  by (simp add: task_step_def)

lemma task_step_out_of_range: "length (tasks w) \<le> i \<Longrightarrow> task_step i ev w = w"
  by (simp add: task_step_def)

text \<open>A step of the last task keeps the count, when the task does not fail.\<close>

lemma task_step_last:
  assumes tw: "tasks w = xs @ [t]" and sx: "settled xs"
    and nf: "\<not> is_failed (task_pc t)"
    and acc: "delivered_bytes w + discarded_bytes w + length (buffer (the_client w))
         + (if past_call (task_pc t) then 0 else length (scratch_buffer (the_client w)))
       = appended_bytes w"
    and q: "list_all (\<lambda>t. \<not> is_failed (task_pc t)) (tasks (task_step (length xs) ev w))"
  shows "\<exists>t'. tasks (task_step (length xs) ev w) = xs @ [t'] \<and> \<not> is_failed (task_pc t')
     \<and> delivered_bytes (task_step (length xs) ev w) + discarded_bytes (task_step (length xs) ev w)
         + length (buffer (the_client (task_step (length xs) ev w)))
         + (if past_call (task_pc t') then 0
            else length (scratch_buffer (the_client (task_step (length xs) ev w))))
       = appended_bytes (task_step (length xs) ev w)"
  using assms
  by (cases "task_pc t"; cases ev)
    (auto simp add: task_step_def task_begin_def task_vad_done_def task_asr_done_def
      task_send_done_def task_resend_done_def after_send_def finish_attempt_def set_pc_def
      set_flag_def Let_def delivered_bytes_def discarded_bytes_def appended_bytes_def
      split: sum.splits option.splits if_splits send_outcome.splits)

lemma accounted_task_step:
  assumes "accounted w" and "quiet w (task_step i ev w)"
  shows "accounted (task_step i ev w)"
proof (cases "i < length (tasks w)")
  case False
  then show ?thesis using assms(1) by (simp add: task_step_out_of_range)
next
  case True
  then obtain xs t where tw: "tasks w = xs @ [t]"
    by (cases "tasks w" rule: rev_cases) auto
  from assms(1) tw have sx: "settled xs" and nf: "\<not> is_failed (task_pc t)"
    by (simp_all add: accounted_def)
  show ?thesis
  proof (cases "i = length xs")
    case False
    with True tw have "i < length xs" by simp
    with sx tw have "task_pc (tasks w ! i) = Finished"
      by (simp add: settled_def list_all_length nth_append)
    with True have "task_step i ev w = w" by (rule task_step_noop_finished)
    with assms(1) show ?thesis by simp
  next
    case last: True
    from assms(1) tw sx
    have acc: "delivered_bytes w + discarded_bytes w + length (buffer (the_client w))
         + (if past_call (task_pc t) then 0 else length (scratch_buffer (the_client w)))
       = appended_bytes w"
      by (simp add: accounted_def recognising_last)
    from assms(2) last
    have q: "list_all (\<lambda>t. \<not> is_failed (task_pc t)) (tasks (task_step (length xs) ev w))"
      by (simp add: quiet_def)
    from task_step_last [OF tw sx nf acc q] obtain t' where
      t': "tasks (task_step (length xs) ev w) = xs @ [t']" "\<not> is_failed (task_pc t')"
      "delivered_bytes (task_step (length xs) ev w) + discarded_bytes (task_step (length xs) ev w)
         + length (buffer (the_client (task_step (length xs) ev w)))
         + (if past_call (task_pc t') then 0
            else length (scratch_buffer (the_client (task_step (length xs) ev w))))
       = appended_bytes (task_step (length xs) ev w)"
      by blast
    from t'(1) sx have "recognising (task_step (length xs) ev w) = past_call (task_pc t')"
      by (rule recognising_last)
    with t' sx q show ?thesis
      by (simp add: accounted_def last)
  qed
qed

lemma idle_accounted_settled:
  assumes "idle w" and "accounted w"
  shows "settled (tasks w)" and "\<not> recognising w"
proof -
  have "task_pc u = Finished" if "u \<in> set (tasks w)" for u
  proof -
    from that assms have "\<not> live (task_pc u)" "\<not> is_failed (task_pc u)"
      by (simp_all add: idle_def accounted_def list_all_iff)
    then show ?thesis by (cases "task_pc u") simp_all
  qed
  then show "settled (tasks w)" by (simp add: settled_def list_all_iff)
  then show "\<not> recognising w" unfolding recognising_def by (rule settled_not_past)
qed

lemma accounted_process_audio:
  assumes "accounted w" and "quiet w (process_audio t1 t2 w)"
  shows "accounted (process_audio t1 t2 w)"
proof (cases "length (tasks w) < length (tasks (process_audio t1 t2 w))")
  case True
  with assms(2) have "idle w" by (simp add: quiet_def)
  from idle_accounted_settled [OF this assms(1)]
  have s: "settled (tasks w)" and nr: "\<not> recognising w" .
  from True have spawned: "tasks (process_audio t1 t2 w) =
      tasks w @ [\<lparr>self_ref = buffering_strategy (the_client w),
         arg_start_time = (case start_time (strategies w (buffering_strategy (the_client w))) of
                             None \<Rightarrow> Some t2 | Some x \<Rightarrow> Some x),
         arg_default_start_time = last_start_time (the_client w), task_pc = Created\<rparr>]"
    by (auto simp add: process_audio_def Let_def split: if_splits)
  from spawned s have "recognising (process_audio t1 t2 w) = past_call Created"
    using recognising_last by fastforce
  then have nr': "\<not> recognising (process_audio t1 t2 w)" by simp
  from True have bufs: "buffer (the_client (process_audio t1 t2 w)) = []"
    "scratch_buffer (the_client (process_audio t1 t2 w))
       = scratch_buffer (the_client w) @ buffer (the_client w)"
    "session_audio_buffer (the_client (process_audio t1 t2 w)) = session_audio_buffer (the_client w)"
    "recognised (process_audio t1 t2 w) = recognised w"
    "discarded (process_audio t1 t2 w) = discarded w"
    by (auto simp add: process_audio_def Let_def split: if_splits)
  from assms(1) nr have "delivered_bytes w + discarded_bytes w + length (buffer (the_client w))
         + length (scratch_buffer (the_client w)) = appended_bytes w"
    by (simp add: accounted_def)
  with bufs nr' spawned s assms(1) show ?thesis
    by (simp add: accounted_def delivered_bytes_def discarded_bytes_def appended_bytes_def
        settled_def)
next
  case False
  then have same: "tasks (process_audio t1 t2 w) = tasks w"
    "buffer (the_client (process_audio t1 t2 w)) = buffer (the_client w)"
    "scratch_buffer (the_client (process_audio t1 t2 w)) = scratch_buffer (the_client w)"
    "session_audio_buffer (the_client (process_audio t1 t2 w)) = session_audio_buffer (the_client w)"
    "recognised (process_audio t1 t2 w) = recognised w"
    "discarded (process_audio t1 t2 w) = discarded w"
    by (auto simp add: process_audio_def Let_def split: if_splits)
  with assms(1) show ?thesis
    by (auto simp add: accounted_def delivered_bytes_def discarded_bytes_def appended_bytes_def
        recognising_def split: if_splits)
qed

lemma accounted_append:
  assumes "accounted w" and "append_audio_data a (the_client w) = Inr c"
  shows "accounted (w\<lparr>the_client := c\<rparr>)"
  using assms
  by (auto simp add: accounted_def append_audio_data_def delivered_bytes_def discarded_bytes_def
      appended_bytes_def recognising_def split: if_splits)

lemma accounted_step:
  assumes "accounted w" and "step e ev w = Inr w1" and "quiet w w1"
  shows "accounted w1"
proof (cases ev)
  case (Audio a t1 t2)
  show ?thesis
  proof (cases "a = []")
    case True
    with Audio assms(2) have "w1 = process_audio t1 t2 w" by (simp add: handle_frame_def)
    with assms show ?thesis by (simp add: accounted_process_audio)
  next
    case False
    with Audio assms(2) obtain c where c: "append_audio_data a (the_client w) = Inr c"
      and w1: "w1 = process_audio t1 t2 (w\<lparr>the_client := c\<rparr>)"
      by (auto simp add: handle_frame_def split: sum.splits)
    from assms(1) c have "accounted (w\<lparr>the_client := c\<rparr>)" by (rule accounted_append)
    moreover from assms(3) w1
    have "quiet (w\<lparr>the_client := c\<rparr>) (process_audio t1 t2 (w\<lparr>the_client := c\<rparr>))"
      by (simp add: quiet_def idle_def)
    ultimately show ?thesis unfolding w1 by (rule accounted_process_audio)
  qed
next
  case (Config d sr)
  with assms(2) have "tasks w1 = tasks w" "buffer (the_client w1) = buffer (the_client w)"
    "scratch_buffer (the_client w1) = scratch_buffer (the_client w)"
    "session_audio_buffer (the_client w1) = session_audio_buffer (the_client w)"
    "recognised w1 = recognised w" "discarded w1 = discarded w"
    by (auto simp add: handle_config_def update_config_def Let_def
        split: sum.splits option.splits if_splits)
  with assms(1) show ?thesis
    by (auto simp add: accounted_def delivered_bytes_def discarded_bytes_def appended_bytes_def
        recognising_def split: if_splits)
next
  case (Begin i a)
  with assms show ?thesis by (auto simp add: accounted_task_step)
next
  case (VadDone i)
  with assms show ?thesis by (auto simp add: accounted_task_step)
next
  case (AsrDone i a n u)
  with assms show ?thesis by (auto simp add: accounted_task_step)
next
  case (SendDone i out)
  with assms show ?thesis by (auto simp add: accounted_task_step)
qed

lemma accounted_run:
  "accounted w \<Longrightarrow> orderly e evs w \<Longrightarrow> \<exists>w'. run e evs w = Inr w' \<and> accounted w'"
proof (induction evs arbitrary: w)
  case Nil
  then show ?case by simp
next
  case (Cons ev evs)
  from Cons.prems(2) obtain w1 where s: "step e ev w = Inr w1" and q: "quiet w w1"
    and o: "orderly e evs w1"
    by (auto split: sum.splits)
  from Cons.prems(1) s q have "accounted w1" by (rule accounted_step)
  from Cons.IH [OF this o] s show ?case by simp
qed

lemma accounted_Client_init:
  "Client_init e cid rate width job lst tr now json = Inr w \<Longrightarrow> accounted w"
  by (auto simp add: Client_init_def accounted_def settled_def delivered_bytes_def
      discarded_bytes_def appended_bytes_def recognising_def split: sum.splits)

lemma orderly_prefix: "orderly e (evs @ rest) w \<Longrightarrow> orderly e evs w"
  by (induction evs arbitrary: w) (auto split: sum.splits)

text \<open>
  C5, amended. At every point of an orderly run of a new session (each attempt started
  while no task is live, no task ending with an exception), the bytes delivered to the
  recognizer, the bytes discarded because the detector found nothing, the bytes of the
  pending buffer and the bytes of the working buffer add up to the bytes appended; while a
  task is between its call of the recognizer and its end, the working buffer is left out
  of the sum.
\<close>

theorem bytes_accounted_in_orderly_runs:
  assumes "Client_init e cid rate width job lst tr now json = Inr w0"
    and "orderly e (evs @ rest) w0"
  shows "\<exists>w. run e evs w0 = Inr w
           \<and> delivered_bytes w + discarded_bytes w + length (buffer (the_client w))
               + (if recognising w then 0 else length (scratch_buffer (the_client w)))
             = appended_bytes w"
proof -
  from assms(1) have "accounted w0" by (rule accounted_Client_init)
  moreover from assms(2) have "orderly e evs w0" by (rule orderly_prefix)
  ultimately have "\<exists>w. run e evs w0 = Inr w \<and> accounted w" by (rule accounted_run)
  then show ?thesis by (auto simp add: accounted_def)
qed

theorem bytes_accounted_in_orderly_runs_witness:
  "orderly no_env orderly_trace session0
   \<and> map_sum id (\<lambda>w. (delivered_bytes w, discarded_bytes w, remaining_bytes w, appended_bytes w,
                       recognising w))
       (run no_env (take 4 orderly_trace) session0)
     = Inr (70000, 0, 70004, 70004, True)
   \<and> map_sum id (\<lambda>w. (delivered_bytes w, discarded_bytes w, remaining_bytes w, appended_bytes w,
                       recognising w))
       (run no_env orderly_trace session0)
     = Inr (70000, 48005, 0, 118005, False)"
proof -
  have o: "orderly no_env (orderly_trace @ []) session0"
    by (simp add: orderly_trace_def run_simps quiet_def idle_def)
  have m: "map_sum id (\<lambda>w. (delivered_bytes w, discarded_bytes w, remaining_bytes w,
                              appended_bytes w, recognising w))
       (run no_env (take 4 orderly_trace) session0)
     = Inr (70000, 0, 70004, 70004, True)"
    by (simp add: orderly_trace_def run_simps delivered_bytes_def discarded_bytes_def
        remaining_bytes_def appended_bytes_def recognising_def)
  have r: "map_sum id (\<lambda>w. (delivered_bytes w, discarded_bytes w, remaining_bytes w,
                              appended_bytes w, recognising w))
       (run no_env orderly_trace session0)
     = Inr (70000, 48005, 0, 118005, False)"
    by (simp add: orderly_trace_def run_simps delivered_bytes_def discarded_bytes_def
        remaining_bytes_def appended_bytes_def recognising_def)
  from bytes_accounted_in_orderly_runs [OF Client_init_session0 o] o m r show ?thesis
    by simp
qed

end
